theory Spec2Isabelle
  imports Complex_Main
begin

section \<open>JavaScript values used by the pages\<close>

text \<open>
  A JavaScript string is a sequence of UTF-16 code units; a code unit is kept as a natural
  number. String literals of the source are written with \<open>str\<close>. Numbers of the source
  are IEEE doubles; prices are kept as exact reals and counts as integers, so rounding is
  outside this development.
\<close>

type_synonym js_string = "nat list"

definition str :: "string \<Rightarrow> js_string" where
  "str s = map of_char s"

text \<open>
  \<open>String.prototype.trim\<close> strips the code units of the ECMAScript productions
  WhiteSpace and LineTerminator from both ends.
\<close>

definition js_whitespace :: "nat \<Rightarrow> bool" where
  "js_whitespace c \<longleftrightarrow>
     c \<in> {9, 10, 11, 12, 13, 32, 160, 5760, 8192, 8193, 8194, 8195, 8196, 8197, 8198,
          8199, 8200, 8201, 8202, 8232, 8233, 8239, 8287, 12288, 65279}"

definition trim :: "js_string \<Rightarrow> js_string" where
  "trim s = rev (dropWhile js_whitespace (rev (dropWhile js_whitespace s)))"

text \<open>\<open>Array.prototype.join\<close> on an array of strings.\<close>

fun join :: "js_string \<Rightarrow> js_string list \<Rightarrow> js_string" where
  "join sep [] = []"
| "join sep [x] = x"
| "join sep (x # y # ys) = x @ sep @ join sep (y # ys)"

text \<open>\<open>a || b\<close> on strings: the empty string is falsy.\<close>

definition or_else :: "js_string \<Rightarrow> js_string \<Rightarrow> js_string" where
  "or_else a b = (if a = [] then b else a)"

definition startsWith :: "js_string \<Rightarrow> js_string \<Rightarrow> bool" where
  "startsWith s p \<longleftrightarrow> take (length p) s = p"

text \<open>
  An awaited call either throws an error carrying a message (\<open>err.message\<close>) or
  returns a value.
\<close>

datatype 'a outcome = Throws js_string | Returns 'a

section \<open>Price comparison: \<open>PriceComparison.jsx\<close> and the standalone \<open>PriceComparisonApp\<close>\<close>

text \<open>
  A product record of the \<open>/api/compare\<close> answer, with the fields the views read.
  \<open>url\<close> is \<open>None\<close> when the property is missing or null.
\<close>

record product =
  source :: js_string
  name :: js_string
  price_usd :: real
  price_pkr :: real
  url :: "js_string option"

text \<open>
  The answer of \<open>fetch\<close>: the handlers read \<open>response.ok\<close> and
  \<open>response.json()\<close>, which they store as the product array. The field
  \<open>failed_sources\<close> is not a property the source reads: it stands for whatever
  report of failed or timed-out sources the answer carries next to the products, so that
  a statement can say what the handlers do with it.
\<close>

record response =
  ok :: bool
  json :: "product list outcome"
  failed_sources :: "js_string list"

datatype param_value = PStr js_string | PNum int | PBool bool

type_synonym params = "(string \<times> param_value) list"

text \<open>\<open>Compare port params\<close> is \<open>GET http://localhost:port/api/compare?params\<close>.\<close>

datatype search_request = Compare nat params

text \<open>
  The component state (\<open>useState\<close>). \<open>parallel\<close> is a state variable of
  \<open>PriceComparisonApp\<close> only; the page sends the constant \<open>true\<close>.
\<close>

record search_state =
  query :: js_string
  products :: "product list"
  loading :: bool
  error :: js_string
  sources :: "js_string list"
  topN :: int
  sortByPrice :: bool
  equalDistribution :: bool
  parallel :: bool

text \<open>
  The body of the \<open>try\<close> block after the request was sent: a rejected \<open>fetch\<close>
  throws, a response that is not ok throws the handler's own message, otherwise the
  result of \<open>response.json()\<close>.
\<close>

definition fetch_products :: "js_string \<Rightarrow> response outcome \<Rightarrow> product list outcome" where
  "fetch_products failmsg net =
     (case net of
        Throws m \<Rightarrow> Throws m
      | Returns r \<Rightarrow> if \<not> ok r then Throws failmsg else json r)"

text \<open>
  \<open>handleSearch\<close> of \<open>PriceComparison.jsx\<close>. The second argument is what the
  network answers if a request is sent; the result is the state after the handler has
  finished and the requests it issued, in order.
\<close>

definition handleSearch ::
  "search_state \<Rightarrow> response outcome \<Rightarrow> search_state \<times> search_request list" where
  "handleSearch st net =
     (if trim (query st) = [] then
        (st\<lparr>error := str ''Please enter a search query''\<rparr>, [])
      else
        let st1 = st\<lparr>loading := True, error := [], products := []\<rparr>;
            ps = [(''query'', PStr (query st)),
                  (''top_n'', PNum (topN st)),
                  (''sort'', PBool (sortByPrice st)),
                  (''equal_distribution'', PBool (equalDistribution st)),
                  (''parallel'', PBool True)]
                 @ (if length (sources st) > 0
                    then [(''sources'', PStr (join (str '','') (sources st)))] else []);
            st2 = (case fetch_products
                          (str ''Failed to fetch products. Make sure the FastAPI backend is running on port 8001.'')
                          net of
                     Returns data \<Rightarrow> st1\<lparr>products := data\<rparr>
                   | Throws m \<Rightarrow>
                       st1\<lparr>error := or_else m (str ''An error occurred while fetching products'')\<rparr>)
        in (st2\<lparr>loading := False\<rparr>, [Compare 8001 ps]))"

text \<open>\<open>handleSearch\<close> of the standalone \<open>PriceComparisonApp\<close>.\<close>

definition handleSearch_App ::
  "search_state \<Rightarrow> response outcome \<Rightarrow> search_state \<times> search_request list" where
  "handleSearch_App st net =
     (if trim (query st) = [] then
        (st\<lparr>error := str ''Please enter a search query''\<rparr>, [])
      else
        let st1 = st\<lparr>loading := True, error := [], products := []\<rparr>;
            ps = [(''query'', PStr (query st)),
                  (''top_n'', PNum (topN st)),
                  (''sort'', PBool (sortByPrice st)),
                  (''equal_distribution'', PBool (equalDistribution st)),
                  (''parallel'', PBool (parallel st))]
                 @ (if length (sources st) > 0
                    then [(''sources'', PStr (join (str '','') (sources st)))] else []);
            st2 = (case fetch_products (str ''Failed to fetch products'') net of
                     Returns data \<Rightarrow> st1\<lparr>products := data\<rparr>
                   | Throws m \<Rightarrow>
                       st1\<lparr>error := or_else m (str ''An error occurred while fetching products'')\<rparr>)
        in (st2\<lparr>loading := False\<rparr>, [Compare 8000 ps]))"

text \<open>\<open>toggleSource\<close>: the filter buttons add or remove a source id.\<close>

definition toggleSource :: "js_string \<Rightarrow> search_state \<Rightarrow> search_state" where
  "toggleSource sourceId st =
     st\<lparr>sources := (if sourceId \<in> set (sources st)
                     then filter (\<lambda>s. s \<noteq> sourceId) (sources st)
                     else sources st @ [sourceId])\<rparr>"

text \<open>The initial state of both components.\<close>

definition initial_search_state :: search_state where
  "initial_search_state =
     \<lparr>query = [], products = [], loading = False, error = [],
      sources = [str ''alfatah'', str ''daraz'', str ''imtiaz''],
      topN = 10, sortByPrice = True, equalDistribution = False, parallel = True\<rparr>"

text \<open>
  The condition under which each view renders the ``View Product'' link.
  The page: \<open>product.url && product.url !== 'N/A' && product.url.startsWith('http')\<close>.
  The standalone app: \<open>product.url !== 'N/A'\<close>.
\<close>

definition PriceComparison_viewProduct :: "product \<Rightarrow> bool" where
  "PriceComparison_viewProduct p =
     (case url p of
        None \<Rightarrow> False
      | Some u \<Rightarrow> u \<noteq> [] \<and> u \<noteq> str ''N/A'' \<and> startsWith u (str ''http''))"

definition PriceComparisonApp_viewProduct :: "product \<Rightarrow> bool" where
  "PriceComparisonApp_viewProduct p \<longleftrightarrow> url p \<noteq> Some (str ''N/A'')"

section \<open>Creating a shopping list: the \<open>ShoppingList\<close> page\<close>

text \<open>
  \<open>parseInt\<close> with no radix. On a string: leading white space is skipped, a sign is
  read, a prefix \<open>0x\<close> or \<open>0X\<close> selects radix 16, and the longest run of digits of
  the radix is the value; with no digit the result is NaN (\<open>None\<close>).
\<close>

definition digit_of :: "nat \<Rightarrow> nat" where
  "digit_of c =
     (if 48 \<le> c \<and> c \<le> 57 then c - 48
      else if 97 \<le> c \<and> c \<le> 122 then c - 87
      else if 65 \<le> c \<and> c \<le> 90 then c - 55
      else 36)"

definition is_digit :: "nat \<Rightarrow> nat \<Rightarrow> bool" where
  "is_digit R c \<longleftrightarrow> digit_of c < R"

definition parseInt_string :: "js_string \<Rightarrow> int option" where
  "parseInt_string s =
     (let s1 = dropWhile js_whitespace s;
          sign = (case s1 of c # r \<Rightarrow> if c = 45 then - 1 else 1 | [] \<Rightarrow> (1::int));
          s2 = (case s1 of c # r \<Rightarrow> if c = 45 \<or> c = 43 then r else s1 | [] \<Rightarrow> []);
          hex = (case s2 of a # b # r \<Rightarrow> a = 48 \<and> (b = 120 \<or> b = 88) | _ \<Rightarrow> False);
          R = (if hex then 16 else 10);
          s3 = (if hex then drop 2 s2 else s2);
          Z = takeWhile (is_digit R) s3
      in if Z = [] then None
         else Some (sign * int (foldl (\<lambda>acc c. acc * R + digit_of c) 0 Z)))"

text \<open>
  On a number, \<open>parseInt\<close> parses the number's string form. An integer below
  \<open>10^21\<close> in magnitude prints as its decimal digits; from \<open>10^21\<close> on it prints in
  exponent notation with one digit before the point, and only that digit is read.
\<close>

fun leading_digit :: "nat \<Rightarrow> nat" where
  "leading_digit n = (if n < 10 then n else leading_digit (n div 10))"

definition parseInt_number :: "int \<Rightarrow> int" where
  "parseInt_number n =
     (if \<bar>n\<bar> < 10 ^ 21 then n else sgn n * int (leading_digit (nat \<bar>n\<bar>)))"

datatype js_value = JStr js_string | JNum int

fun parseInt :: "js_value \<Rightarrow> int option" where
  "parseInt (JStr s) = parseInt_string s"
| "parseInt (JNum n) = Some (parseInt_number n)"

text \<open>
  The quantity of a form row is the empty string or a number. The rows are the state
  variable \<open>newListItems\<close>; their fields \<open>product_name\<close> and \<open>quantity\<close> carry the
  prefix \<open>new_\<close> here, the plain names being those of the priced cart items below.
\<close>

datatype quantity_field = QEmpty | QNum int

record new_item =
  new_product_name :: js_string
  new_quantity :: quantity_field

record list_summary =
  list_id :: nat
  list_name :: js_string
  item_count :: int
  purchased_count :: int

text \<open>
  The state of the page; \<open>lists_st\<close> is the state variable \<open>lists\<close>. \<open>user_id\<close> is \<open>user?.id\<close>, \<open>None\<close> when there is no user;
  \<open>location\<close> is the route, changed by \<open>navigate\<close>.
\<close>

record list_state =
  lists_st :: "list_summary list"
  newListName :: js_string
  newListItems :: "new_item list"
  list_error :: js_string
  list_loading :: bool
  user_id :: "nat option"
  location :: js_string

definition initial_list_state :: list_state where
  "initial_list_state =
     \<lparr>lists_st = [], newListName = [],
      newListItems = [\<lparr>new_product_name = [], new_quantity = QEmpty\<rparr>],
      list_error = [], list_loading = False, user_id = Some 1,
      location = str ''/shopping-list''\<rparr>"

text \<open>The two calls \<open>handleItemChange(index, 'product_name', v)\<close> and
  \<open>handleItemChange(index, 'quantity', v)\<close> that the form makes.\<close>

datatype field_update = SetProductName js_string | SetQuantity js_value

text \<open>
  \<open>handleItemChange\<close>. Writing a field of \<open>updatedItems[index]\<close> with the index out
  of range throws a TypeError, \<open>None\<close> here.
\<close>

definition handleItemChange :: "nat \<Rightarrow> field_update \<Rightarrow> list_state \<Rightarrow> list_state option" where
  "handleItemChange index upd st =
     (if index < length (newListItems st) then
        let item = newListItems st ! index;
            item' = (case upd of
                       SetQuantity v \<Rightarrow>
                         item\<lparr>new_quantity :=
                           (if v = JStr [] then QEmpty
                            else (case parseInt v of
                                    None \<Rightarrow> QEmpty
                                  | Some n \<Rightarrow> if n = 0 then QEmpty else QNum n))\<rparr>
                     | SetProductName v \<Rightarrow> item\<lparr>new_product_name := v\<rparr>)
        in Some (st\<lparr>newListItems := (newListItems st)[index := item']\<rparr>)
      else None)"

text \<open>The \<open>onBlur\<close> handler of the quantity input of row \<open>index\<close>.\<close>

definition onBlur_quantity :: "nat \<Rightarrow> list_state \<Rightarrow> list_state option" where
  "onBlur_quantity index st =
     (if index < length (newListItems st) then
        (if new_quantity (newListItems st ! index) = QEmpty
            \<or> new_quantity (newListItems st ! index) = QNum 0
         then handleItemChange index (SetQuantity (JNum 1)) st
         else Some st)
      else None)"

text \<open>\<open>handleAddItem\<close> and \<open>handleRemoveItem\<close> of the form.\<close>

definition handleAddItem_row :: "list_state \<Rightarrow> list_state" where
  "handleAddItem_row st =
     st\<lparr>newListItems := newListItems st @ [\<lparr>new_product_name = [], new_quantity = QEmpty\<rparr>]\<rparr>"

definition handleRemoveItem :: "nat \<Rightarrow> list_state \<Rightarrow> list_state" where
  "handleRemoveItem index st =
     (if length (newListItems st) > 1
      then st\<lparr>newListItems := map snd (filter (\<lambda>(i, _). i \<noteq> index) (enumerate 0 (newListItems st)))\<rparr>
      else st)"

text \<open>The filter of \<open>handleCreateList\<close> that selects \<open>validItems\<close>.\<close>

definition valid_item :: "new_item \<Rightarrow> bool" where
  "valid_item item \<longleftrightarrow>
     trim (new_product_name item) \<noteq> []
     \<and> (case new_quantity item of QEmpty \<Rightarrow> False | QNum n \<Rightarrow> parseInt_number n > 0)"

text \<open>\<open>CartCreate user_id list_name items\<close> is the \<open>POST /cart/create\<close> with that body.\<close>

datatype create_request = CartCreate nat js_string "new_item list"

text \<open>The answer to the create request: \<open>response.ok\<close> and, from its JSON, \<open>data.detail\<close>
  (empty when absent).\<close>

record create_response =
  create_ok :: bool
  create_detail :: "js_string outcome"

definition handleCreateList ::
  "list_state \<Rightarrow> create_response outcome \<Rightarrow> list_state \<times> create_request list" where
  "handleCreateList st net =
     (let st0 = st\<lparr>list_error := []\<rparr> in
      if trim (newListName st) = [] then
        (st0\<lparr>list_error := str ''Please enter a list name''\<rparr>, [])
      else
        let validItems = filter valid_item (newListItems st) in
        if length validItems = 0 then
          (st0\<lparr>list_error := str ''Please add at least one item with a valid name and quantity''\<rparr>, [])
        else
          (case user_id st of
             None \<Rightarrow> (st0\<lparr>list_error := str ''User not authenticated''\<rparr>, [])
           | Some uid \<Rightarrow>
               if uid = 0 then (st0\<lparr>list_error := str ''User not authenticated''\<rparr>, [])
               else
                 let st1 = st0\<lparr>list_loading := True\<rparr>;
                     thrown = (case net of
                                 Throws m \<Rightarrow> Some m
                               | Returns r \<Rightarrow>
                                   (case create_detail r of
                                      Throws m \<Rightarrow> Some m
                                    | Returns d \<Rightarrow>
                                        if \<not> create_ok r
                                        then Some (or_else d (str ''Failed to create list''))
                                        else None));
                     st2 = (case thrown of
                              None \<Rightarrow> st1\<lparr>location := str ''/my-shopping-lists''\<rparr>
                            | Some m \<Rightarrow>
                                st1\<lparr>list_error := or_else m (str ''Failed to create shopping list'')\<rparr>)
                 in (st2\<lparr>list_loading := False\<rparr>, [CartCreate uid (newListName st) validItems])))"

section \<open>Purchasing a whole list: the \<open>MyShoppingLists\<close> page\<close>

record expense_payload =
  description :: js_string
  amount :: real
  category :: js_string
  expense_date :: js_string

text \<open>
  The requests of the page: \<open>GET /cart/listId/expense-data\<close>,
  \<open>POST /cart/listId/purchase-all?user_id=uid\<close>, \<open>POST /expenses/\<close> with a payload
  (the call to the expense ledger), and \<open>GET /user/uid/lists\<close>.
\<close>

datatype purchase_request =
    ExpenseData nat
  | PurchaseAll nat nat
  | PostExpense expense_payload
  | UserLists nat

text \<open>The alerts the handler can raise.\<close>

datatype purchase_alert =
    ExpenseEntryFailed
  | NoExpenseNoPrices
  | NoExpenseData
  | PurchaseError js_string

text \<open>
  The JSON of the expense-data answer: \<open>success\<close> and \<open>amount\<close>, the latter
  \<open>None\<close> when absent.
\<close>

record expense_data =
  expense_success :: bool
  expense_amount :: "real option"

record purchase_response =
  purchase_ok :: bool
  purchase_json :: "unit outcome"

record lists_data =
  lists_success :: bool
  lists_lists :: "list_summary list"
  lists_message :: js_string

record lists_response =
  lists_ok :: bool
  lists_json :: "lists_data outcome"

record my_lists_state =
  my_lists :: "list_summary list"
  my_loading :: bool
  my_error :: js_string
  showConfirmModal :: bool
  confirm_listId :: nat
  confirm_listName :: js_string
  purchasedLists :: "nat set"
  showSuccessMessage :: bool
  successData :: "js_string \<times> real"

text \<open>\<open>loadLists\<close> of the page, for the user \<open>uid\<close>.\<close>

definition loadLists ::
  "nat \<Rightarrow> lists_response outcome \<Rightarrow> my_lists_state \<Rightarrow> my_lists_state \<times> purchase_request list" where
  "loadLists uid net st =
     (let st1 = st\<lparr>my_loading := True, my_error := []\<rparr>;
          result = (case net of
                      Throws m \<Rightarrow> Throws m
                    | Returns r \<Rightarrow>
                        if \<not> lists_ok r
                        then Throws (str ''Failed to connect to Shopping Cart backend. Make sure it's running on port 8002.'')
                        else lists_json r);
          st2 = (case result of
                   Returns data \<Rightarrow>
                     if lists_success data then
                       st1\<lparr>my_lists := lists_lists data,
                           purchasedLists :=
                             set (map list_id
                               (filter (\<lambda>l. item_count l > 0 \<and> purchased_count l = item_count l)
                                  (lists_lists data)))\<rparr>
                     else st1\<lparr>my_error := or_else (lists_message data) (str ''Failed to load lists'')\<rparr>
                 | Throws m \<Rightarrow>
                     st1\<lparr>my_error := or_else m
                       (str ''Failed to connect to backend. Please ensure Shopping Cart service is running.'')\<rparr>)
      in (st2\<lparr>my_loading := False\<rparr>, [UserLists uid]))"

text \<open>
  \<open>confirmPurchaseAll\<close>. \<open>uid\<close> is \<open>user.id\<close> and \<open>today\<close> the local date
  \<open>new Date().toLocaleDateString('en-CA')\<close>. The answers are those of the expense-data
  request (fetch and JSON), of the purchase-all request, of the post to the ledger and of
  the reload of the lists. The result is the final state, the requests in the order they
  were issued, and the alerts.
\<close>

definition confirmPurchaseAll ::
  "nat \<Rightarrow> js_string \<Rightarrow> expense_data outcome \<Rightarrow> purchase_response outcome \<Rightarrow> unit outcome
     \<Rightarrow> lists_response outcome \<Rightarrow> my_lists_state
     \<Rightarrow> my_lists_state \<times> purchase_request list \<times> purchase_alert list" where
  "confirmPurchaseAll uid today ed pr ex ll st =
     (let listId = confirm_listId st;
          listName = confirm_listName st;
          st1 = st\<lparr>showConfirmModal := False, my_loading := True\<rparr>;
          failed = (\<lambda>m reqs.
            (st1\<lparr>my_error := or_else m (str ''Failed to purchase all items''), my_loading := False\<rparr>,
             reqs, [PurchaseError (or_else m (str ''Failed to purchase all items''))]))
      in case ed of
           Throws m \<Rightarrow> failed m [ExpenseData listId]
         | Returns expenseData \<Rightarrow>
             (case pr of
                Throws m \<Rightarrow> failed m [ExpenseData listId, PurchaseAll listId uid]
              | Returns purchaseResponse \<Rightarrow>
                  if \<not> purchase_ok purchaseResponse then
                    (case purchase_json purchaseResponse of
                       Throws m \<Rightarrow> failed m [ExpenseData listId, PurchaseAll listId uid]
                     | Returns _ \<Rightarrow>
                         failed (str ''Failed to mark items as purchased'')
                           [ExpenseData listId, PurchaseAll listId uid])
                  else
                    let (st2, reqs, alerts) =
                          (case expense_amount expenseData of
                             Some a \<Rightarrow>
                               if expense_success expenseData \<and> a > 0 then
                                 (let expensePayload =
                                        \<lparr>description = listName, amount = a,
                                         category = str ''shopping'', expense_date = today\<rparr>
                                  in case ex of
                                       Returns _ \<Rightarrow>
                                         (st1\<lparr>my_error := [],
                                              purchasedLists := insert listId (purchasedLists st1),
                                              successData := (listName, a),
                                              showSuccessMessage := True\<rparr>,
                                          [PostExpense expensePayload], [])
                                     | Throws _ \<Rightarrow>
                                         (st1, [PostExpense expensePayload], [ExpenseEntryFailed]))
                               else if expense_success expenseData \<and> a = 0 then
                                 (st1, [], [NoExpenseNoPrices])
                               else (st1, [], [NoExpenseData])
                           | None \<Rightarrow> (st1, [], [NoExpenseData]));
                        (st3, reqs') = loadLists uid ll st2
                    in (st3\<lparr>my_loading := False\<rparr>,
                        [ExpenseData listId, PurchaseAll listId uid] @ reqs @ reqs', alerts)))"

text \<open>The expenses a run of the handler sends to the ledger.\<close>

fun expenses_posted :: "purchase_request list \<Rightarrow> expense_payload list" where
  "expenses_posted [] = []"
| "expenses_posted (PostExpense e # rs) = e # expenses_posted rs"
| "expenses_posted (_ # rs) = expenses_posted rs"

section \<open>The optimized cart: \<open>OptimizedCart.jsx\<close>\<close>

text \<open>A recommendation is a product with its rank.\<close>

record recommendation = product +
  rank :: int

text \<open>A priced cart item; \<open>recommendations\<close> is \<open>None\<close> when the property is absent.\<close>

record cart_item =
  item_id :: nat
  product_name :: js_string
  quantity :: int
  status :: js_string
  recommendations :: "recommendation list option"

text \<open>
  The JSON of \<open>GET /cart/listId/optimized\<close>; \<open>items\<close> and the totals are \<open>None\<close>
  when absent (or, for the totals, not numbers).
\<close>

record cart_data =
  cart_success :: bool
  cart_message :: js_string
  cart_list_name :: js_string
  items :: "cart_item list option"
  total_cart_cost_usd :: "real option"
  total_potential_savings_usd :: "real option"

text \<open>
  The amount one item adds in the \<open>forEach\<close> of \<open>calculatePotentialSavingsUSD\<close>;
  \<open>find\<close> returns the first entry with the rank, \<open>None\<close> for \<open>undefined\<close>.
\<close>

definition item_savings :: "cart_item \<Rightarrow> real" where
  "item_savings item =
     (case recommendations item of
        None \<Rightarrow> 0
      | Some recs \<Rightarrow>
          if length recs > 1 then
            (case find (\<lambda>r. rank r = 1) recs of
               None \<Rightarrow> 0
             | Some best \<Rightarrow>
                 (case find (\<lambda>r. rank r = 2) recs of
                    None \<Rightarrow> 0
                  | Some nextBest \<Rightarrow>
                      (price_usd nextBest - price_usd best) * of_int (quantity item)))
          else 0)"

definition calculatePotentialSavingsUSD :: "cart_data option \<Rightarrow> real" where
  "calculatePotentialSavingsUSD cartData =
     (case cartData of
        None \<Rightarrow> 0
      | Some c \<Rightarrow>
          (case items c of
             None \<Rightarrow> 0
           | Some its \<Rightarrow> fold (\<lambda>item savings. savings + item_savings item) its 0))"

text \<open>The figure the summary card shows under ``Potential Savings''.\<close>

definition displayed_savings :: "cart_data \<Rightarrow> real" where
  "displayed_savings c =
     (case total_potential_savings_usd c of
        Some v \<Rightarrow> v
      | None \<Rightarrow> calculatePotentialSavingsUSD (Some c))"

text \<open>
  The savings as the specification words them: per item, the quantity times the price of
  the second-ranked recommendation minus the price of the first-ranked one, when a second
  one exists, else 0; the ranked list is read by position, rank 1 first.
\<close>

definition spec_item_savings :: "cart_item \<Rightarrow> real" where
  "spec_item_savings item =
     (case recommendations item of
        Some (r1 # r2 # _) \<Rightarrow> of_int (quantity item) * (price_usd r2 - price_usd r1)
      | _ \<Rightarrow> 0)"

definition spec_potential_savings :: "cart_item list \<Rightarrow> real" where
  "spec_potential_savings its = sum_list (map spec_item_savings its)"

text \<open>
  A recommendation list ranked ascending by price: the entry at position \<open>i\<close> has rank
  \<open>i + 1\<close> and prices do not decrease along the list.
\<close>

definition ranked :: "recommendation list \<Rightarrow> bool" where
  "ranked recs \<longleftrightarrow>
     map rank recs = map int [1 ..< length recs + 1] \<and> sorted (map price_usd recs)"

definition well_ranked :: "cart_item \<Rightarrow> bool" where
  "well_ranked item \<longleftrightarrow> (case recommendations item of None \<Rightarrow> True | Some recs \<Rightarrow> ranked recs)"

text \<open>
  The requests of the cart views, each with the port of its API base:
  \<open>GET /cart/listId/optimized\<close>, \<open>POST /cart/listId/refresh-prices\<close>,
  \<open>POST /cart/item/itemId/purchased\<close>, \<open>POST /cart/listId/items\<close> (user, name and
  quantity of the new item), \<open>GET /cart/listId/add-item?product_name=..&quantity=1\<close>
  and \<open>GET /user/uid/lists\<close>.
\<close>

datatype cart_request =
    Optimized nat nat
  | RefreshPrices nat nat
  | ItemPurchased nat nat
  | AddItems nat nat nat js_string int
  | AddItemQuery nat nat js_string
  | ListsOfUser nat nat

record cart_state =
  cartData :: "cart_data option"
  cart_loading :: bool
  cart_error :: js_string
  refreshing :: bool
  showAddItem :: bool
  newItem_name :: js_string
  newItem_quantity :: int
  addingItem :: bool

definition loadOptimizedCart ::
  "nat \<Rightarrow> cart_data outcome \<Rightarrow> cart_state \<Rightarrow> cart_state \<times> cart_request list" where
  "loadOptimizedCart listId net st =
     (let st1 = st\<lparr>cart_loading := True, cart_error := []\<rparr>;
          st2 = (case net of
                   Returns data \<Rightarrow>
                     if cart_success data then st1\<lparr>cartData := Some data\<rparr>
                     else st1\<lparr>cart_error := or_else (cart_message data) (str ''Failed to load optimized cart'')\<rparr>
                 | Throws _ \<Rightarrow>
                     st1\<lparr>cart_error := str ''Failed to load optimized cart. Make sure the backend is running.''\<rparr>)
      in (st2\<lparr>cart_loading := False\<rparr>, [Optimized 8002 listId]))"


definition handleRefreshPrices ::
  "nat \<Rightarrow> cart_data outcome \<Rightarrow> cart_state \<Rightarrow> cart_state \<times> cart_request list" where
  "handleRefreshPrices listId net st =
     (let (st', reqs) = loadOptimizedCart listId net (st\<lparr>refreshing := True\<rparr>)
      in (st'\<lparr>refreshing := False\<rparr>, reqs))"

text \<open>\<open>handleMarkPurchased\<close>; \<open>pr\<close> is the answer to the post, with \<open>response.ok\<close>.\<close>

definition handleMarkPurchased ::
  "nat \<Rightarrow> nat \<Rightarrow> bool outcome \<Rightarrow> cart_data outcome \<Rightarrow> cart_state \<Rightarrow> cart_state \<times> cart_request list" where
  "handleMarkPurchased itemId listId pr net st =
     (case pr of
        Returns True \<Rightarrow>
          (let (st', reqs) = loadOptimizedCart listId net st
           in (st', ItemPurchased 8002 itemId # reqs))
      | _ \<Rightarrow> (st, [ItemPurchased 8002 itemId]))"

text \<open>\<open>handleAddItem\<close> of the cart page; \<open>ar\<close> is the answer to the post, with \<open>data.success\<close>.\<close>

definition handleAddItem ::
  "nat \<Rightarrow> nat \<Rightarrow> bool outcome \<Rightarrow> cart_data outcome \<Rightarrow> cart_state \<Rightarrow> cart_state \<times> cart_request list" where
  "handleAddItem listId uid ar net st =
     (if trim (newItem_name st) = [] then (st, [])
      else
        let st1 = st\<lparr>addingItem := True\<rparr>;
            req = AddItems 8002 listId uid (newItem_name st) (newItem_quantity st)
        in case ar of
             Returns True \<Rightarrow>
               (let (st2, reqs) =
                      loadOptimizedCart listId net
                        (st1\<lparr>newItem_name := [], newItem_quantity := 1, showAddItem := False\<rparr>)
                in (st2\<lparr>addingItem := False\<rparr>, req # reqs))
           | _ \<Rightarrow> (st1\<lparr>addingItem := False\<rparr>, [req]))"

section \<open>The cart views of \<open>PaisaProApp\<close>\<close>




text \<open>
  \<open>addItem\<close> and \<open>markPurchased\<close> of \<open>ListView\<close>. After the request they reload the
  window; the restarted app shows the dashboard and fetches the lists of the user.
\<close>

definition ListView_addItem :: "js_string \<Rightarrow> nat option \<Rightarrow> nat \<Rightarrow> unit outcome \<Rightarrow> cart_request list" where
  "ListView_addItem newItem listId uid ar =
     (case listId of
        None \<Rightarrow> []
      | Some l \<Rightarrow>
          if trim newItem \<noteq> [] \<and> l \<noteq> 0 then
            (case ar of
               Returns _ \<Rightarrow> [AddItemQuery 8000 l newItem, ListsOfUser 8000 uid]
             | Throws _ \<Rightarrow> [AddItemQuery 8000 l newItem])
          else [])"

definition ListView_markPurchased :: "nat \<Rightarrow> nat \<Rightarrow> unit outcome \<Rightarrow> cart_request list" where
  "ListView_markPurchased itemId uid pr =
     (case pr of
        Returns _ \<Rightarrow> [ItemPurchased 8000 itemId, ListsOfUser 8000 uid]
      | Throws _ \<Rightarrow> [ItemPurchased 8000 itemId])"

text \<open>\<open>ListView\<close> marks the recommendation at index 0 of an item as ``CHEAPEST''.\<close>

definition ListView_cheapest :: "recommendation list \<Rightarrow> recommendation option" where
  "ListView_cheapest recs = (case recs of [] \<Rightarrow> None | r # _ \<Rightarrow> Some r)"

section \<open>The cart service behind the views\<close>










section \<open>The ranker\<close>

text \<open>
  Modelled from the spec: \<open>Select\<close> of the Ranker/Selector (section 4.4), whose code is
  not among the sources; the views only receive its output. The records are normalized
  products, \<open>price_usd\<close> being the reference-currency price. The configuration carries
  \<open>topN\<close>, the two flags, the enabled sources in enumeration order, and the name
  normalization, which the spec leaves open.
\<close>

record select_config =
  cfg_topN :: nat
  cfg_sortByPrice :: bool
  cfg_equalDistribution :: bool
  cfg_sources :: "js_string list"
  cfg_normalize :: "js_string \<Rightarrow> js_string"

text \<open>Modelled from the spec: the URL of a record is an absolute URL or the sentinel
  ``unavailable'' marker.\<close>

definition url_present :: "product \<Rightarrow> bool" where
  "url_present p \<longleftrightarrow> url p \<noteq> None \<and> url p \<noteq> Some (str ''N/A'')"

text \<open>Modelled from the spec: step 1 of \<open>Select\<close>; the key is (source, URL) if the URL is
  present, else (source, normalized name).\<close>

definition dedup_key :: "select_config \<Rightarrow> product \<Rightarrow> js_string \<times> (js_string option + js_string)" where
  "dedup_key cfg p =
     (source p, if url_present p then Inl (url p) else Inr (cfg_normalize cfg (name p)))"

text \<open>Modelled from the spec: step 1 of \<open>Select\<close> keeps the first occurrence of each key.\<close>

fun dedup_first :: "('a \<Rightarrow> 'k) \<Rightarrow> 'k list \<Rightarrow> 'a list \<Rightarrow> 'a list" where
  "dedup_first key seen [] = []"
| "dedup_first key seen (x # xs) =
     (if key x \<in> set seen then dedup_first key seen xs
      else x # dedup_first key (key x # seen) xs)"

text \<open>Modelled from the spec: \<open>ceil(topN / sourceCount)\<close> of step 2 of \<open>Select\<close>.\<close>

definition ceil_div :: "nat \<Rightarrow> nat \<Rightarrow> nat" where
  "ceil_div a b = (a + b - 1) div b"

text \<open>
  Modelled from the spec: step 2 of \<open>Select\<close>; at most \<open>cap\<close> records per source, each
  source's cheapest first (earlier arrival first among equal prices); the kept records
  stay in arrival order.
\<close>

definition cap_per_source :: "nat \<Rightarrow> product list \<Rightarrow> product list" where
  "cap_per_source cap recs =
     map snd
       (filter
          (\<lambda>(i, r).
             length (filter (\<lambda>(j, q). source q = source r
                                 \<and> (price_usd q < price_usd r \<or> (price_usd q = price_usd r \<and> j < i)))
                       (enumerate 0 recs)) < cap)
          (enumerate 0 recs))"

text \<open>Modelled from the spec: the position of a source in the enumeration order.\<close>

definition source_index :: "js_string list \<Rightarrow> js_string \<Rightarrow> nat" where
  "source_index srcs s = length (takeWhile (\<lambda>x. x \<noteq> s) srcs)"

text \<open>
  Modelled from the spec: step 3 of \<open>Select\<close>; ascending by price, ties by source
  enumeration order, then by arrival order. \<open>sort_key\<close> is stable, so sorting by the
  minor key first gives this order.
\<close>

definition sort_by_price :: "select_config \<Rightarrow> product list \<Rightarrow> product list" where
  "sort_by_price cfg recs =
     sort_key price_usd (sort_key (\<lambda>p. source_index (cfg_sources cfg) (source p)) recs)"

text \<open>Modelled from the spec: step 5 of \<open>Select\<close>; rank = position + 1.\<close>

definition assign_rank :: "product list \<Rightarrow> recommendation list" where
  "assign_rank recs =
     map (\<lambda>(i, p). \<lparr>source = source p, name = name p, price_usd = price_usd p,
                    price_pkr = price_pkr p, url = url p, rank = int i + 1\<rparr>)
         (enumerate 0 recs)"

text \<open>
  Modelled from the spec: \<open>Select\<close>, steps 1 to 5; with \<open>sortByPrice\<close> off, step 3 is
  skipped and the arrival order is ranked.
\<close>

definition Select :: "select_config \<Rightarrow> product list \<Rightarrow> recommendation list" where
  "Select cfg records =
     (let deduped = dedup_first (dedup_key cfg) [] records;
          capped = (if cfg_equalDistribution cfg
                    then cap_per_source (ceil_div (cfg_topN cfg) (length (cfg_sources cfg))) deduped
                    else deduped);
          ordered = (if cfg_sortByPrice cfg then sort_by_price cfg capped else capped)
      in assign_rank (take (cfg_topN cfg) ordered))"

section \<open>Predicates and example inputs used in the statements\<close>

text \<open>A form quantity that is a positive integer.\<close>

definition positive_quantity :: "new_item \<Rightarrow> bool" where
  "positive_quantity it \<longleftrightarrow> (case new_quantity it of QEmpty \<Rightarrow> False | QNum n \<Rightarrow> n > 0)"

text \<open>A form quantity that is the empty string or an integer other than 0.\<close>

definition nonzero_or_empty :: "quantity_field \<Rightarrow> bool" where
  "nonzero_or_empty q \<longleftrightarrow> (case q of QEmpty \<Rightarrow> True | QNum n \<Rightarrow> n \<noteq> 0)"

definition quantities_ok :: "list_state \<Rightarrow> bool" where
  "quantities_ok st \<longleftrightarrow> (\<forall>it \<in> set (newListItems st). nonzero_or_empty (new_quantity it))"

text \<open>The search state after typing ``milk'' and switching the three sources off.\<close>

definition milk_no_sources :: search_state where
  "milk_no_sources =
     toggleSource (str ''imtiaz'') (toggleSource (str ''daraz'') (toggleSource (str ''alfatah'')
       (initial_search_state\<lparr>query := str ''milk''\<rparr>)))"

text \<open>The product of the example scenario of the specification, and a search for it.\<close>

definition milk_B :: product where
  "milk_B = \<lparr>source = str ''B'', name = str ''milk'', price_usd = 195 / 100, price_pkr = 543,
             url = Some (str ''http://b.example/milk'')\<rparr>"

definition milk_search :: search_state where
  "milk_search = initial_search_state\<lparr>query := str ''milk''\<rparr>"

text \<open>A product whose URL is present, is not the sentinel, and is not absolute.\<close>

definition relative_url_product :: product where
  "relative_url_product = \<lparr>source = str ''Daraz'', name = str ''milk'', price_usd = 2, price_pkr = 556,
             url = Some (str ''/products/milk'')\<rparr>"

text \<open>A filled form: one valid row, one with a negative quantity, one empty.\<close>

definition weekly_groceries :: list_state where
  "weekly_groceries =
     initial_list_state\<lparr>newListName := str ''Weekly'',
       newListItems := [\<lparr>new_product_name = str ''milk'', new_quantity = QNum 2\<rparr>,
                        \<lparr>new_product_name = str ''rice'', new_quantity = QNum (- 1)\<rparr>,
                        \<lparr>new_product_name = [], new_quantity = QEmpty\<rparr>]\<rparr>"

text \<open>The state of \<open>MyShoppingLists\<close> when the purchase of list 7, ``Weekly'', is confirmed.\<close>

definition weekly_confirm :: my_lists_state where
  "weekly_confirm =
     \<lparr>my_lists = [], my_loading = False, my_error = [], showConfirmModal = True,
      confirm_listId = 7, confirm_listName = str ''Weekly'', purchasedLists = {},
      showSuccessMessage = False, successData = ([], 0)\<rparr>"

text \<open>The number of recommendations an item carries.\<close>

definition recommendation_count :: "cart_item \<Rightarrow> nat" where
  "recommendation_count item = (case recommendations item of None \<Rightarrow> 0 | Some recs \<Rightarrow> length recs)"

text \<open>
  The cart of the example scenario of the specification: one item, quantity 2, with the
  quotes of sources B and A ranked 1 and 2.
\<close>

definition milk_item :: cart_item where
  "milk_item =
     \<lparr>item_id = 1, product_name = str ''milk'', quantity = 2, status = str ''priced'',
      recommendations = Some
        [\<lparr>source = str ''B'', name = str ''milk'', price_usd = 195 / 100, price_pkr = 543,
          url = Some (str ''http://b.example/milk''), rank = 1\<rparr>,
         \<lparr>source = str ''A'', name = str ''milk'', price_usd = 210 / 100, price_pkr = 585,
          url = Some (str ''http://a.example/milk''), rank = 2\<rparr>]\<rparr>"

definition milk_cart :: cart_data where
  "milk_cart =
     \<lparr>cart_success = True, cart_message = [], cart_list_name = str ''Weekly'',
      items = Some [milk_item], total_cart_cost_usd = Some (39 / 10),
      total_potential_savings_usd = None\<rparr>"

text \<open>The same cart with the quantity of its item set to \<open>-1\<close>.\<close>

definition milk_item_negative :: cart_item where
  "milk_item_negative = milk_item\<lparr>quantity := - 1\<rparr>"

definition milk_cart_negative :: cart_data where
  "milk_cart_negative = milk_cart\<lparr>items := Some [milk_item_negative]\<rparr>"

text \<open>The quote of source A in that scenario, and the configuration of the ranker there.\<close>

definition milk_A :: product where
  "milk_A = \<lparr>source = str ''A'', name = str ''milk'', price_usd = 210 / 100, price_pkr = 585,
             url = Some (str ''http://a.example/milk'')\<rparr>"

definition milk_config :: select_config where
  "milk_config =
     \<lparr>cfg_topN = 5, cfg_sortByPrice = True, cfg_equalDistribution = False,
      cfg_sources = [str ''A'', str ''B'', str ''C''], cfg_normalize = (\<lambda>s. s)\<rparr>"




section \<open>Properties of the search handlers\<close>

lemma trim_empty_iff: "trim s = [] \<longleftrightarrow> (\<forall>c \<in> set s. js_whitespace c)"
proof
  assume "trim s = []"
  then have a: "\<forall>c \<in> set (dropWhile js_whitespace s). js_whitespace c"
    by (simp add: trim_def)
  have "dropWhile js_whitespace s = []"
  proof (cases "dropWhile js_whitespace s")
    case Nil
    then show ?thesis .
  next
    case (Cons c cs)
    then have "\<not> js_whitespace (hd (dropWhile js_whitespace s))"
      using hd_dropWhile [of js_whitespace s] by simp
    with a Cons show ?thesis by simp
  qed
  then show "\<forall>c \<in> set s. js_whitespace c"
    by simp
next
  assume "\<forall>c \<in> set s. js_whitespace c"
  then show "trim s = []"
    by (auto simp: trim_def dest: set_dropWhileD)
qed

lemma str_nonempty: "s \<noteq> [] \<Longrightarrow> str s \<noteq> []"
  by (simp add: str_def)

lemma or_else_nonempty: "b \<noteq> [] \<Longrightarrow> or_else a b \<noteq> []"
  by (simp add: or_else_def)

text \<open>
  Claim C5. A search whose term is empty or consists of white space only ends at once:
  both handlers set the error message ``Please enter a search query'', issue no request,
  and leave the product list and every other state variable as they were.
\<close>

theorem C5_blank_query_rejected:
  assumes "\<forall>c \<in> set (query st). js_whitespace c"
  shows "handleSearch st net = (st\<lparr>error := str ''Please enter a search query''\<rparr>, [])
       \<and> handleSearch_App st net = (st\<lparr>error := str ''Please enter a search query''\<rparr>, [])"
proof -
  from assms have "trim (query st) = []"
    by (simp add: trim_empty_iff)
  then show ?thesis
    by (simp add: handleSearch_def handleSearch_App_def)
qed

theorem C5_blank_query_rejected_witness:
  "handleSearch (initial_search_state\<lparr>query := [32, 9, 160]\<rparr>) (Throws [])
       = (initial_search_state\<lparr>query := [32, 9, 160], error := str ''Please enter a search query''\<rparr>, [])
   \<and> handleSearch_App initial_search_state (Throws [])
       = (initial_search_state\<lparr>error := str ''Please enter a search query''\<rparr>, [])"
proof -
  have h1: "\<forall>c \<in> set (query (initial_search_state\<lparr>query := [32, 9, 160]\<rparr>)). js_whitespace c"
    by (simp add: js_whitespace_def)
  have h2: "\<forall>c \<in> set (query initial_search_state). js_whitespace c"
    by (simp add: initial_search_state_def)
  show ?thesis
    using h1 C5_blank_query_rejected [OF h1, of "Throws []"]
      C5_blank_query_rejected [OF h2, of "Throws []"]
    by simp
qed

lemma trim_nonempty: "\<not> (\<forall>c \<in> set s. js_whitespace c) \<Longrightarrow> trim s \<noteq> []"
  by (simp add: trim_empty_iff)

text \<open>
  Claim C6, as stated: a search with an empty source set is rejected instead of being
  dispatched. It fails: with the three sources switched off and the term ``milk'', the page
  sends the compare request, only without a \<open>sources\<close> parameter, and sets no error.
\<close>

theorem C6_empty_sources_dispatched_counterexample:
  "handleSearch milk_no_sources (Returns \<lparr>ok = True, json = Returns [], failed_sources = []\<rparr>)
   = (milk_no_sources\<lparr>loading := False, error := [], products := []\<rparr>,
      [Compare 8001 [(''query'', PStr (str ''milk'')), (''top_n'', PNum 10), (''sort'', PBool True),
                     (''equal_distribution'', PBool False), (''parallel'', PBool True)]])
   \<and> sources milk_no_sources = []"
  by (simp add: handleSearch_def milk_no_sources_def toggleSource_def initial_search_state_def str_def
        trim_def js_whitespace_def fetch_products_def)

text \<open>
  Claim C6, amended: for a term that is not blank and an empty source set, each handler
  dispatches exactly one compare request, whose parameters are the five fixed ones with
  no \<open>sources\<close> entry; an ok answer leaves the error empty.
\<close>

theorem C6_empty_sources_dispatched:
  assumes "sources st = []" and "\<not> (\<forall>c \<in> set (query st). js_whitespace c)"
  shows "snd (handleSearch st net) =
           [Compare 8001 [(''query'', PStr (query st)), (''top_n'', PNum (topN st)),
                          (''sort'', PBool (sortByPrice st)),
                          (''equal_distribution'', PBool (equalDistribution st)),
                          (''parallel'', PBool True)]]
       \<and> snd (handleSearch_App st net) =
           [Compare 8000 [(''query'', PStr (query st)), (''top_n'', PNum (topN st)),
                          (''sort'', PBool (sortByPrice st)),
                          (''equal_distribution'', PBool (equalDistribution st)),
                          (''parallel'', PBool (parallel st))]]
       \<and> error (fst (handleSearch st (Returns \<lparr>ok = True, json = Returns d, failed_sources = fs\<rparr>))) = []
       \<and> error (fst (handleSearch_App st (Returns \<lparr>ok = True, json = Returns d, failed_sources = fs\<rparr>))) = []"
proof -
  from assms(2) have t: "trim (query st) \<noteq> []"
    by (rule trim_nonempty)
  show ?thesis
    using t assms(1)
    by (simp add: handleSearch_def handleSearch_App_def Let_def fetch_products_def)
qed

theorem C6_empty_sources_dispatched_witness:
  "sources milk_no_sources = []
   \<and> \<not> (\<forall>c \<in> set (query milk_no_sources). js_whitespace c)
   \<and> snd (handleSearch milk_no_sources (Throws [])) =
       [Compare 8001 [(''query'', PStr (str ''milk'')), (''top_n'', PNum 10), (''sort'', PBool True),
                      (''equal_distribution'', PBool False), (''parallel'', PBool True)]]"
proof -
  have h1: "sources milk_no_sources = []"
    by (simp add: milk_no_sources_def toggleSource_def initial_search_state_def str_def)
  have h2: "\<not> (\<forall>c \<in> set (query milk_no_sources). js_whitespace c)"
    by (simp add: milk_no_sources_def toggleSource_def initial_search_state_def str_def js_whitespace_def)
  have q: "query milk_no_sources = str ''milk''" "topN milk_no_sources = 10"
    "sortByPrice milk_no_sources" "\<not> equalDistribution milk_no_sources"
    by (simp_all add: milk_no_sources_def toggleSource_def initial_search_state_def)
  show ?thesis
    using h1 h2 q C6_empty_sources_dispatched [OF h1 h2, of "Throws []"]
    by simp
qed


text \<open>
  Claim C4, as stated: what a search delivers to the caller includes the list of failed
  sources. It fails: two answers that differ only in that list leave the page in the same
  state, and an answer that is not ok leaves no product at all.
\<close>

theorem C4_failed_sources_not_delivered_counterexample:
  "handleSearch milk_search (Returns \<lparr>ok = True, json = Returns [milk_B], failed_sources = [str ''C'']\<rparr>)
   = handleSearch milk_search (Returns \<lparr>ok = True, json = Returns [milk_B], failed_sources = []\<rparr>)
   \<and> failed_sources \<lparr>ok = True, json = Returns [milk_B], failed_sources = [str ''C'']\<rparr>
     \<noteq> failed_sources \<lparr>ok = True, json = Returns [milk_B], failed_sources = []\<rparr>
   \<and> products (fst (handleSearch milk_search
        (Returns \<lparr>ok = False, json = Returns [milk_B], failed_sources = [str ''C'']\<rparr>))) = []"
  by (simp add: handleSearch_def fetch_products_def Let_def str_def milk_search_def
        initial_search_state_def trim_def js_whitespace_def)

text \<open>
  Claim C4, amended: for a term that is not blank, what a search delivers is either the
  product array alone, with the error empty (ok answer), or an error message with an empty
  product list (answer not ok, or failed request); the state does not depend on any list
  of failed sources.
\<close>

theorem C4_products_or_bare_error:
  assumes "\<not> (\<forall>c \<in> set (query st). js_whitespace c)"
  shows "fst (handleSearch st (Returns (r\<lparr>failed_sources := fs\<rparr>))) = fst (handleSearch st (Returns r))
       \<and> fst (handleSearch_App st (Returns (r\<lparr>failed_sources := fs\<rparr>))) = fst (handleSearch_App st (Returns r))
       \<and> (ok r \<and> json r = Returns d \<longrightarrow>
            products (fst (handleSearch st (Returns r))) = d
            \<and> error (fst (handleSearch st (Returns r))) = []
            \<and> products (fst (handleSearch_App st (Returns r))) = d
            \<and> error (fst (handleSearch_App st (Returns r))) = [])
       \<and> (\<not> ok r \<longrightarrow>
            products (fst (handleSearch st (Returns r))) = []
            \<and> error (fst (handleSearch st (Returns r))) \<noteq> []
            \<and> products (fst (handleSearch_App st (Returns r))) = []
            \<and> error (fst (handleSearch_App st (Returns r))) \<noteq> [])
       \<and> products (fst (handleSearch st (Throws m))) = []
       \<and> error (fst (handleSearch st (Throws m))) \<noteq> []
       \<and> products (fst (handleSearch_App st (Throws m))) = []
       \<and> error (fst (handleSearch_App st (Throws m))) \<noteq> []"
proof -
  from assms have t: "trim (query st) \<noteq> []"
    by (rule trim_nonempty)
  have ne: "str ''An error occurred while fetching products'' \<noteq> []"
    "str ''Failed to fetch products'' \<noteq> []"
    "str ''Failed to fetch products. Make sure the FastAPI backend is running on port 8001.'' \<noteq> []"
    by (simp_all add: str_def)
  show ?thesis
    using t ne
    by (simp add: handleSearch_def handleSearch_App_def Let_def fetch_products_def or_else_def)
qed

theorem C4_products_or_bare_error_witness:
  "\<not> (\<forall>c \<in> set (query milk_search). js_whitespace c)
   \<and> products (fst (handleSearch milk_search
        (Returns \<lparr>ok = True, json = Returns [milk_B], failed_sources = [str ''C'']\<rparr>))) = [milk_B]
   \<and> error (fst (handleSearch milk_search
        (Returns \<lparr>ok = True, json = Returns [milk_B], failed_sources = [str ''C'']\<rparr>))) = []
   \<and> products (fst (handleSearch milk_search (Throws []))) = []
   \<and> error (fst (handleSearch milk_search (Throws []))) \<noteq> []"
proof -
  have h: "\<not> (\<forall>c \<in> set (query milk_search). js_whitespace c)"
    by (simp add: milk_search_def str_def js_whitespace_def)
  show ?thesis
    using h C4_products_or_bare_error [OF h,
        where r = "\<lparr>ok = True, json = Returns [milk_B], failed_sources = [str ''C'']\<rparr>"
          and d = "[milk_B]" and m = "[]"]
    by simp
qed


text \<open>
  Claim C9, as stated: the two views render the ``View Product'' link under the same
  condition for every product record. It fails for a URL that is present, not the
  sentinel and not absolute: the standalone app renders the link, the page does not.
\<close>

theorem C9_views_differ_counterexample:
  "PriceComparisonApp_viewProduct relative_url_product
   \<and> \<not> PriceComparison_viewProduct relative_url_product"
  by (simp add: PriceComparisonApp_viewProduct_def PriceComparison_viewProduct_def
        relative_url_product_def startsWith_def str_def)

text \<open>
  Claim C9, amended: for every product whose URL is the sentinel \<open>N/A\<close> or begins with
  \<open>http\<close>, both views render the link under the same condition, namely that the URL is
  not the sentinel; for any product, the page renders the link only if the app does.
\<close>

theorem C9_views_agree_on_wellformed_url:
  "(url p = Some u \<and> (u = str ''N/A'' \<or> startsWith u (str ''http'')) \<longrightarrow>
      PriceComparison_viewProduct p = PriceComparisonApp_viewProduct p
      \<and> (PriceComparison_viewProduct p \<longleftrightarrow> u \<noteq> str ''N/A''))
   \<and> (PriceComparison_viewProduct p \<longrightarrow> PriceComparisonApp_viewProduct p)"
  by (auto simp: PriceComparisonApp_viewProduct_def PriceComparison_viewProduct_def
        startsWith_def str_def split: option.splits)

theorem C9_views_agree_on_wellformed_url_witness:
  "url milk_B = Some (str ''http://b.example/milk'')
   \<and> startsWith (str ''http://b.example/milk'') (str ''http'')
   \<and> PriceComparison_viewProduct milk_B = PriceComparisonApp_viewProduct milk_B
   \<and> PriceComparison_viewProduct milk_B"
proof -
  have h: "url milk_B = Some (str ''http://b.example/milk'')"
     "startsWith (str ''http://b.example/milk'') (str ''http'')"
    by (simp_all add: milk_B_def startsWith_def str_def)
  show ?thesis
    using h C9_views_agree_on_wellformed_url [of milk_B "str ''http://b.example/milk''"]
    by (auto simp: str_def)
qed


section \<open>Properties of the shopping-list form\<close>

lemma leading_digit_pos: "0 < n \<Longrightarrow> 0 < leading_digit n"
proof (induction n rule: leading_digit.induct)
  case (1 n)
  show ?case
  proof (cases "n < 10")
    case True
    with "1.prems" show ?thesis by simp
  next
    case False
    then have "0 < n div 10" by simp
    with False "1.IH" show ?thesis by simp
  qed
qed

lemma parseInt_number_pos: "parseInt_number n > 0 \<longleftrightarrow> n > 0"
proof (cases "\<bar>n\<bar> < 10 ^ 21")
  case True
  then show ?thesis by (simp add: parseInt_number_def)
next
  case False
  then have nz: "n \<noteq> 0" by auto
  then have "0 < nat \<bar>n\<bar>" by simp
  then have ld: "0 < int (leading_digit (nat \<bar>n\<bar>))"
    using leading_digit_pos by simp
  have "parseInt_number n = sgn n * int (leading_digit (nat \<bar>n\<bar>))"
    using False by (simp add: parseInt_number_def)
  with ld nz show ?thesis
    by (cases "n > 0") (simp_all add: zero_less_mult_iff)
qed

lemma trim_Nil: "trim [] = []"
  by (simp add: trim_def)

lemma valid_item_iff:
  "valid_item it \<longleftrightarrow> trim (new_product_name it) \<noteq> [] \<and> (\<exists>n>0. new_quantity it = QNum n)"
  by (cases "new_quantity it") (auto simp: valid_item_def parseInt_number_pos)

lemma valid_item_name: "valid_item it \<Longrightarrow> new_product_name it \<noteq> []"
  using trim_Nil by (auto simp: valid_item_iff)

lemma handleCreateList_requests:
  "snd (handleCreateList st net) = [] \<or>
   (\<exists>uid. snd (handleCreateList st net) =
      [CartCreate uid (newListName st) (filter valid_item (newListItems st))])"
  by (simp add: handleCreateList_def Let_def split: option.splits)

lemma handleCreateList_no_valid:
  assumes "filter valid_item (newListItems st) = []"
  shows "snd (handleCreateList st net) = []"
    and "list_error (fst (handleCreateList st net)) \<noteq> []"
    and "lists_st (fst (handleCreateList st net)) = lists_st st"
  using assms by (simp_all add: handleCreateList_def Let_def str_def)

text \<open>
  Claim C8. Every create request that \<open>handleCreateList\<close> sends carries only rows of the
  form whose product name is not empty and whose quantity is a positive integer; if no row
  of the form has both, an error is reported, no request is sent and the stored lists are
  unchanged.
\<close>

theorem C8_create_only_valid_items:
  "(\<forall>uid nm its. CartCreate uid nm its \<in> set (snd (handleCreateList st net)) \<longrightarrow>
      (\<forall>it \<in> set its. it \<in> set (newListItems st) \<and> new_product_name it \<noteq> [] \<and> positive_quantity it))
   \<and> ((\<forall>it \<in> set (newListItems st). \<not> (new_product_name it \<noteq> [] \<and> positive_quantity it)) \<longrightarrow>
        snd (handleCreateList st net) = []
        \<and> list_error (fst (handleCreateList st net)) \<noteq> []
        \<and> lists_st (fst (handleCreateList st net)) = lists_st st)"
proof (intro conjI allI impI)
  fix uid nm its
  assume a: "CartCreate uid nm its \<in> set (snd (handleCreateList st net))"
  from handleCreateList_requests [of st net] a
  have "its = filter valid_item (newListItems st)" by auto
  then show "\<forall>it \<in> set its. it \<in> set (newListItems st) \<and> new_product_name it \<noteq> [] \<and> positive_quantity it"
    by (auto simp: valid_item_name valid_item_iff positive_quantity_def)
next
  assume a: "\<forall>it \<in> set (newListItems st). \<not> (new_product_name it \<noteq> [] \<and> positive_quantity it)"
  have "filter valid_item (newListItems st) = []"
  proof (rule ccontr)
    assume "filter valid_item (newListItems st) \<noteq> []"
    then obtain it where it: "it \<in> set (newListItems st)" "valid_item it"
      by (auto simp: filter_empty_conv)
    from it(2) have "new_product_name it \<noteq> []" "positive_quantity it"
      by (auto simp: valid_item_name valid_item_iff positive_quantity_def)
    with a it(1) show False by blast
  qed
  then show "snd (handleCreateList st net) = []"
    "list_error (fst (handleCreateList st net)) \<noteq> []"
    "lists_st (fst (handleCreateList st net)) = lists_st st"
    by (rule handleCreateList_no_valid)+
qed

theorem C8_create_only_valid_items_witness:
  "CartCreate 1 (str ''Weekly'') [\<lparr>new_product_name = str ''milk'', new_quantity = QNum 2\<rparr>]
     \<in> set (snd (handleCreateList weekly_groceries (Throws [])))
   \<and> positive_quantity \<lparr>new_product_name = str ''milk'', new_quantity = QNum 2\<rparr>
   \<and> snd (handleCreateList initial_list_state (Throws [])) = []
   \<and> list_error (fst (handleCreateList initial_list_state (Throws []))) \<noteq> []"
proof -
  have h1: "CartCreate 1 (str ''Weekly'') [\<lparr>new_product_name = str ''milk'', new_quantity = QNum 2\<rparr>]
     \<in> set (snd (handleCreateList weekly_groceries (Throws [])))"
    by (simp add: handleCreateList_def weekly_groceries_def initial_list_state_def Let_def str_def
        trim_def js_whitespace_def valid_item_def parseInt_number_def)
  have h2: "\<forall>it \<in> set (newListItems initial_list_state). \<not> (new_product_name it \<noteq> [] \<and> positive_quantity it)"
    by (simp add: initial_list_state_def)
  show ?thesis
    using h1 h2 C8_create_only_valid_items [of weekly_groceries "Throws []"]
      C8_create_only_valid_items [of initial_list_state "Throws []"]
    by fastforce
qed

text \<open>
  Claim C10, as stated: a quantity of the form is the empty string or a positive integer,
  and after the field loses focus it is at least 1. It fails: typing \<open>-5\<close> stores the
  number \<open>-5\<close>, and the blur handler leaves it.
\<close>

theorem C10_negative_quantity_counterexample:
  "Option.bind (handleItemChange 0 (SetQuantity (JStr (str ''-5''))) initial_list_state)
     (onBlur_quantity 0)
   = Some (initial_list_state\<lparr>newListItems := [\<lparr>new_product_name = [], new_quantity = QNum (- 5)\<rparr>]\<rparr>)"
  by (simp add: handleItemChange_def onBlur_quantity_def initial_list_state_def Let_def
        parseInt_string_def str_def js_whitespace_def is_digit_def digit_of_def)

lemma handleItemChange_quantity:
  assumes "handleItemChange i (SetQuantity v) st = Some st'"
  shows "i < length (newListItems st)"
    and "newListItems st' = (newListItems st)[i := (newListItems st ! i)\<lparr>new_quantity := new_quantity (newListItems st' ! i)\<rparr>]"
    and "new_quantity (newListItems st' ! i) = QEmpty
         \<or> (\<exists>n. n \<noteq> 0 \<and> parseInt v = Some n \<and> new_quantity (newListItems st' ! i) = QNum n)"
  using assms
  by (auto simp: handleItemChange_def Let_def split: if_splits option.splits)

lemma quantities_ok_update:
  assumes "quantities_ok st" "nonzero_or_empty (new_quantity it)"
  shows "quantities_ok (st\<lparr>newListItems := (newListItems st)[i := it]\<rparr>)"
proof -
  have "set ((newListItems st)[i := it]) \<subseteq> insert it (set (newListItems st))"
    by (rule set_update_subset_insert)
  with assms show ?thesis
    by (auto simp: quantities_ok_def)
qed

lemma handleItemChange_ok:
  assumes "handleItemChange i upd st = Some st'" "quantities_ok st"
  shows "quantities_ok st'"
proof -
  from assms(1) have i: "i < length (newListItems st)"
    by (simp add: handleItemChange_def split: if_splits)
  then have old: "nonzero_or_empty (new_quantity (newListItems st ! i))"
    using assms(2) by (simp add: quantities_ok_def)
  show ?thesis
  proof (cases upd)
    case (SetProductName s)
    with assms(1) i have "st' = st\<lparr>newListItems := (newListItems st)[i := (newListItems st ! i)\<lparr>new_product_name := s\<rparr>]\<rparr>"
      by (simp add: handleItemChange_def Let_def)
    with old assms(2) show ?thesis
      by (simp add: quantities_ok_update)
  next
    case (SetQuantity v)
    with assms(1) i obtain q where
      st': "st' = st\<lparr>newListItems := (newListItems st)[i := (newListItems st ! i)\<lparr>new_quantity := q\<rparr>]\<rparr>"
      and q: "nonzero_or_empty q"
      by (auto simp: handleItemChange_def Let_def nonzero_or_empty_def split: if_splits option.splits)
    with assms(2) show ?thesis
      by (simp add: quantities_ok_update)
  qed
qed

lemma parseInt_one: "parseInt_number 1 = 1"
  by (simp add: parseInt_number_def)

lemma onBlur_result:
  assumes "onBlur_quantity i st = Some st'"
  shows "i < length (newListItems st)"
    and "length (newListItems st') = length (newListItems st)"
    and "new_quantity (newListItems st ! i) = QEmpty \<or> new_quantity (newListItems st ! i) = QNum 0
          \<Longrightarrow> new_quantity (newListItems st' ! i) = QNum 1"
    and "\<not> (new_quantity (newListItems st ! i) = QEmpty \<or> new_quantity (newListItems st ! i) = QNum 0)
          \<Longrightarrow> st' = st"
  using assms
  by (auto simp: onBlur_quantity_def handleItemChange_def Let_def parseInt_one split: if_splits)

text \<open>
  Claim C10, amended: every quantity of the form is the empty string or an integer other
  than 0 (initially, and after adding or removing a row or changing a field); a changed
  quantity is empty or the non-zero integer that \<open>parseInt\<close> reads from the input; the
  blur handler of a row replaces an empty quantity with 1, so that afterwards the quantity
  of that row is a non-zero integer.
\<close>

theorem C10_quantity_nonzero_or_empty:
  "quantities_ok initial_list_state
   \<and> (quantities_ok st \<longrightarrow> quantities_ok (handleAddItem_row st) \<and> quantities_ok (handleRemoveItem j st))
   \<and> (quantities_ok st \<and> handleItemChange i upd st = Some st' \<longrightarrow> quantities_ok st')
   \<and> (handleItemChange i (SetQuantity v) st = Some st' \<longrightarrow>
        new_quantity (newListItems st' ! i) = QEmpty
        \<or> (\<exists>n. n \<noteq> 0 \<and> parseInt v = Some n \<and> new_quantity (newListItems st' ! i) = QNum n))
   \<and> (i < length (newListItems st) \<longrightarrow> (\<exists>st''. onBlur_quantity i st = Some st''))
   \<and> (quantities_ok st \<and> onBlur_quantity i st = Some st' \<longrightarrow>
        quantities_ok st'
        \<and> (\<exists>n. n \<noteq> 0 \<and> new_quantity (newListItems st' ! i) = QNum n)
        \<and> (new_quantity (newListItems st ! i) = QEmpty \<longrightarrow> new_quantity (newListItems st' ! i) = QNum 1))"
proof (intro conjI impI)
  show "quantities_ok initial_list_state"
    by (simp add: quantities_ok_def initial_list_state_def nonzero_or_empty_def)
next
  assume "quantities_ok st"
  then show "quantities_ok (handleAddItem_row st)"
    by (auto simp: quantities_ok_def handleAddItem_row_def nonzero_or_empty_def)
next
  assume "quantities_ok st"
  then show "quantities_ok (handleRemoveItem j st)"
    by (auto simp: quantities_ok_def handleRemoveItem_def in_set_enumerate_eq)
next
  assume "quantities_ok st \<and> handleItemChange i upd st = Some st'"
  then show "quantities_ok st'"
    using handleItemChange_ok by blast
next
  assume "handleItemChange i (SetQuantity v) st = Some st'"
  then show "new_quantity (newListItems st' ! i) = QEmpty
        \<or> (\<exists>n. n \<noteq> 0 \<and> parseInt v = Some n \<and> new_quantity (newListItems st' ! i) = QNum n)"
    by (rule handleItemChange_quantity(3))
next
  assume "i < length (newListItems st)"
  then show "\<exists>st''. onBlur_quantity i st = Some st''"
    by (simp add: onBlur_quantity_def handleItemChange_def Let_def)
next
  assume a: "quantities_ok st \<and> onBlur_quantity i st = Some st'"
  show ok': "quantities_ok st'"
  proof (cases "new_quantity (newListItems st ! i) = QEmpty \<or> new_quantity (newListItems st ! i) = QNum 0")
    case True
    with a have "handleItemChange i (SetQuantity (JNum 1)) st = Some st'"
      by (simp add: onBlur_quantity_def split: if_splits)
    with a show ?thesis using handleItemChange_ok by blast
  next
    case False
    with a onBlur_result(4) [of i st st'] show ?thesis by simp
  qed
  show "\<exists>n. n \<noteq> 0 \<and> new_quantity (newListItems st' ! i) = QNum n"
  proof (cases "new_quantity (newListItems st ! i) = QEmpty \<or> new_quantity (newListItems st ! i) = QNum 0")
    case True
    with a onBlur_result(3) [of i st st'] show ?thesis by simp
  next
    case False
    with a onBlur_result(4) [of i st st'] have "st' = st" by simp
    with False show ?thesis
      by (cases "new_quantity (newListItems st ! i)") auto
  qed
next
  assume "quantities_ok st \<and> onBlur_quantity i st = Some st'"
    and "new_quantity (newListItems st ! i) = QEmpty"
  then show "new_quantity (newListItems st' ! i) = QNum 1"
    using onBlur_result(3) [of i st st'] by simp
qed

theorem C10_quantity_nonzero_or_empty_witness:
  "quantities_ok initial_list_state
   \<and> (0::nat) < length (newListItems initial_list_state)
   \<and> onBlur_quantity 0 initial_list_state
       = Some (initial_list_state\<lparr>newListItems := [\<lparr>new_product_name = [], new_quantity = QNum 1\<rparr>]\<rparr>)
   \<and> quantities_ok (initial_list_state\<lparr>newListItems := [\<lparr>new_product_name = [], new_quantity = QNum 1\<rparr>]\<rparr>)"
proof -
  have h1: "quantities_ok initial_list_state"
    by (simp add: quantities_ok_def initial_list_state_def nonzero_or_empty_def)
  have h2: "onBlur_quantity 0 initial_list_state
       = Some (initial_list_state\<lparr>newListItems := [\<lparr>new_product_name = [], new_quantity = QNum 1\<rparr>]\<rparr>)"
    by (simp add: onBlur_quantity_def handleItemChange_def initial_list_state_def Let_def
        parseInt_number_def)
  have h3: "(0::nat) < length (newListItems initial_list_state)"
    by (simp add: initial_list_state_def)
  show ?thesis
    using h1 h2 h3
      C10_quantity_nonzero_or_empty [where st = initial_list_state and i = 0
        and st' = "initial_list_state\<lparr>newListItems := [\<lparr>new_product_name = [], new_quantity = QNum 1\<rparr>]\<rparr>"]
    by simp
qed


section \<open>Properties of the purchase of a whole list\<close>

lemma loadLists_requests: "snd (loadLists uid ll st) = [UserLists uid]"
  by (simp add: loadLists_def Let_def)

lemma expenses_posted_append:
  "expenses_posted (xs @ ys) = expenses_posted xs @ expenses_posted ys"
  by (induction xs rule: expenses_posted.induct) simp_all

lemma confirmPurchaseAll_requests:
  "fst (snd (confirmPurchaseAll uid today ed pr ex ll st)) =
     ExpenseData (confirm_listId st) #
     (case ed of
        Throws _ \<Rightarrow> []
      | Returns d \<Rightarrow>
          PurchaseAll (confirm_listId st) uid #
          (case pr of
             Throws _ \<Rightarrow> []
           | Returns r \<Rightarrow>
               if \<not> purchase_ok r then []
               else (case expense_amount d of
                       None \<Rightarrow> []
                     | Some a \<Rightarrow>
                         if expense_success d \<and> a > 0
                         then [PostExpense \<lparr>description = confirm_listName st, amount = a,
                                 category = str ''shopping'', expense_date = today\<rparr>]
                         else [])
                    @ [UserLists uid]))"
  by (simp add: confirmPurchaseAll_def Let_def case_prod_beta loadLists_requests
        split: outcome.splits option.splits)

text \<open>
  Claim C7, as stated: for every cart that is fully marked purchased, exactly one expense
  is sent to the ledger. It fails: when the expense data report the amount 0, the
  purchase-all request is sent and succeeds, and no expense is posted.
\<close>

theorem C7_no_expense_for_zero_amount_counterexample:
  "snd (confirmPurchaseAll 1 (str ''2025-01-31'')
          (Returns \<lparr>expense_success = True, expense_amount = Some 0\<rparr>)
          (Returns \<lparr>purchase_ok = True, purchase_json = Returns ()\<rparr>)
          (Returns ()) (Throws []) weekly_confirm)
   = ([ExpenseData 7, PurchaseAll 7 1, UserLists 1], [NoExpenseNoPrices])"
  by (simp add: confirmPurchaseAll_def Let_def loadLists_def weekly_confirm_def)

text \<open>
  Claim C7, amended: when the expense data were obtained with success and an amount above
  0 and the purchase-all request succeeded, exactly one expense is posted, with the list's
  name as description, that amount, the category ``shopping'' and the current date; in
  every other case no expense is posted.
\<close>

theorem C7_one_expense_when_priced:
  "(ed = Returns d \<and> pr = Returns r \<and> purchase_ok r \<and> expense_success d
      \<and> expense_amount d = Some a \<and> a > 0 \<longrightarrow>
      expenses_posted (fst (snd (confirmPurchaseAll uid today ed pr ex ll st)))
        = [\<lparr>description = confirm_listName st, amount = a,
            category = str ''shopping'', expense_date = today\<rparr>]
      \<and> PurchaseAll (confirm_listId st) uid
           \<in> set (fst (snd (confirmPurchaseAll uid today ed pr ex ll st))))
   \<and> (\<not> (\<exists>d r a. ed = Returns d \<and> pr = Returns r \<and> purchase_ok r \<and> expense_success d
          \<and> expense_amount d = Some a \<and> a > 0) \<longrightarrow>
      expenses_posted (fst (snd (confirmPurchaseAll uid today ed pr ex ll st))) = [])"
  by (auto simp: confirmPurchaseAll_requests expenses_posted_append
        split: outcome.splits option.splits)

theorem C7_one_expense_when_priced_witness:
  "expenses_posted (fst (snd (confirmPurchaseAll 1 (str ''2025-01-31'')
          (Returns \<lparr>expense_success = True, expense_amount = Some (39 / 10)\<rparr>)
          (Returns \<lparr>purchase_ok = True, purchase_json = Returns ()\<rparr>)
          (Returns ()) (Throws []) weekly_confirm)))
   = [\<lparr>description = str ''Weekly'', amount = 39 / 10,
       category = str ''shopping'', expense_date = str ''2025-01-31''\<rparr>]
   \<and> expenses_posted (fst (snd (confirmPurchaseAll 1 (str ''2025-01-31'')
          (Throws []) (Throws []) (Returns ()) (Throws []) weekly_confirm))) = []"
  using C7_one_expense_when_priced [where ed = "Returns \<lparr>expense_success = True, expense_amount = Some (39 / 10)\<rparr>"
      and d = "\<lparr>expense_success = True, expense_amount = Some (39 / 10)\<rparr>"
      and pr = "Returns \<lparr>purchase_ok = True, purchase_json = Returns ()\<rparr>"
      and r = "\<lparr>purchase_ok = True, purchase_json = Returns ()\<rparr>"
      and a = "39 / 10" and uid = 1 and today = "str ''2025-01-31''" and ex = "Returns ()"
      and ll = "Throws []" and st = weekly_confirm]
    C7_one_expense_when_priced [where ed = "Throws []" and pr = "Throws []" and uid = 1
      and today = "str ''2025-01-31''" and ex = "Returns ()" and ll = "Throws []" and st = weekly_confirm]
  by (simp add: weekly_confirm_def)


section \<open>Properties of the potential savings\<close>

lemma fold_add: "fold (\<lambda>item savings. savings + f item) its a = a + sum_list (map f its)"
  for a :: real
  by (induction its arbitrary: a) (simp_all add: algebra_simps)

lemma ranked_nth:
  assumes "ranked recs" and "i < length recs"
  shows "rank (recs ! i) = int i + 1"
proof -
  from assms(1) have "map rank recs = map int [1 ..< length recs + 1]"
    unfolding ranked_def by blast
  then have "map rank recs ! i = map int [1 ..< length recs + 1] ! i"
    by (rule arg_cong)
  with assms(2) show ?thesis
    by (simp del: upt_Suc)
qed

lemma ranked_first_two:
  assumes "ranked (r1 # r2 # rest)"
  shows "rank r1 = 1" and "rank r2 = 2" and "price_usd r1 \<le> price_usd r2"
proof -
  from ranked_nth [OF assms, of 0] show "rank r1 = 1" by simp
  from ranked_nth [OF assms, of 1] show "rank r2 = 2" by simp
  from assms show "price_usd r1 \<le> price_usd r2"
    by (simp add: ranked_def)
qed

lemma item_savings_spec:
  assumes "well_ranked item"
  shows "item_savings item = spec_item_savings item"
proof (cases "recommendations item")
  case None
  then show ?thesis by (simp add: item_savings_def spec_item_savings_def)
next
  case (Some recs)
  show ?thesis
  proof (cases recs)
    case Nil
    with Some show ?thesis by (simp add: item_savings_def spec_item_savings_def)
  next
    case (Cons r1 tl)
    show ?thesis
    proof (cases tl)
      case Nil
      with Some Cons show ?thesis by (simp add: item_savings_def spec_item_savings_def)
    next
      case (Cons r2 rest)
      with Some \<open>recs = r1 # tl\<close> assms have "ranked (r1 # r2 # rest)"
        by (simp add: well_ranked_def)
      from ranked_first_two(1,2) [OF this] Some \<open>recs = r1 # tl\<close> Cons show ?thesis
        by (simp add: item_savings_def spec_item_savings_def)
    qed
  qed
qed

lemma spec_item_savings_nonneg:
  assumes "well_ranked item" "0 \<le> quantity item"
  shows "0 \<le> spec_item_savings item"
proof (cases "recommendations item")
  case None
  then show ?thesis by (simp add: spec_item_savings_def)
next
  case (Some recs)
  show ?thesis
  proof (cases recs)
    case Nil
    with Some show ?thesis by (simp add: spec_item_savings_def)
  next
    case (Cons r1 tl)
    show ?thesis
    proof (cases tl)
      case Nil
      with Some Cons show ?thesis by (simp add: spec_item_savings_def)
    next
      case (Cons r2 rest)
      with Some \<open>recs = r1 # tl\<close> assms have "ranked (r1 # r2 # rest)"
        by (simp add: well_ranked_def)
      from ranked_first_two(3) [OF this] Some \<open>recs = r1 # tl\<close> Cons assms(2) show ?thesis
        by (simp add: spec_item_savings_def)
    qed
  qed
qed

lemma few_recommendations_zero:
  "recommendation_count item < 2 \<Longrightarrow> item_savings item = 0 \<and> spec_item_savings item = 0"
  by (cases "recommendations item")
     (auto simp: recommendation_count_def item_savings_def spec_item_savings_def split: list.splits)

text \<open>
  Claim C1, as stated: under the rank ordering alone, the savings of every item and the
  total are at least 0. It fails: \<open>calculatePotentialSavingsUSD\<close> multiplies by
  \<open>item.quantity\<close> unchecked, so the ranked example item with quantity \<open>-1\<close> has
  savings \<open>-0.15\<close>, and so has its cart.
\<close>

theorem C1_negative_quantity_counterexample:
  "well_ranked milk_item_negative
   \<and> items milk_cart_negative = Some [milk_item_negative]
   \<and> item_savings milk_item_negative = - (15 / 100)
   \<and> calculatePotentialSavingsUSD (Some milk_cart_negative) = - (15 / 100)
   \<and> calculatePotentialSavingsUSD (Some milk_cart_negative) < 0"
  by (simp add: well_ranked_def ranked_def milk_item_negative_def milk_cart_negative_def
        milk_item_def milk_cart_def item_savings_def calculatePotentialSavingsUSD_def
        upt_rec [of 1] upt_rec [of 2])

text \<open>
  Claim C1, amended: for a cart whose items each carry a recommendation list ranked
  ascending by price, \<open>calculatePotentialSavingsUSD\<close> is the sum, over the items, of
  quantity times (price of the second-ranked minus price of the first-ranked
  recommendation), an item with fewer than two recommendations adding 0; if moreover no
  item has a negative quantity, the savings of every item and the total are at least 0.
\<close>

theorem C1_potential_savings:
  assumes "items c = Some its" and "\<forall>item \<in> set its. well_ranked item"
  shows "calculatePotentialSavingsUSD (Some c) = spec_potential_savings its
       \<and> (\<forall>item \<in> set its. recommendation_count item < 2 \<longrightarrow> item_savings item = 0)
       \<and> ((\<forall>item \<in> set its. 0 \<le> quantity item) \<longrightarrow>
            (\<forall>item \<in> set its. 0 \<le> item_savings item) \<and> 0 \<le> calculatePotentialSavingsUSD (Some c))"
proof -
  have eq: "map item_savings its = map spec_item_savings its"
    using assms(2) by (simp add: item_savings_spec)
  have calc: "calculatePotentialSavingsUSD (Some c) = sum_list (map item_savings its)"
    using assms(1) by (simp add: calculatePotentialSavingsUSD_def fold_add)
  have a: "calculatePotentialSavingsUSD (Some c) = spec_potential_savings its"
    using calc eq by (simp add: spec_potential_savings_def)
  have b: "\<forall>item \<in> set its. recommendation_count item < 2 \<longrightarrow> item_savings item = 0"
    by (simp add: few_recommendations_zero)
  have c: "(\<forall>item \<in> set its. 0 \<le> item_savings item) \<and> 0 \<le> calculatePotentialSavingsUSD (Some c)"
    if q: "\<forall>item \<in> set its. 0 \<le> quantity item"
  proof -
    have n: "\<forall>item \<in> set its. 0 \<le> item_savings item"
      using assms(2) q by (simp add: item_savings_spec spec_item_savings_nonneg)
    then have "0 \<le> sum_list (map item_savings its)"
      by (intro sum_list_nonneg) auto
    with n calc show ?thesis by simp
  qed
  from a b c show ?thesis by blast
qed

theorem C1_potential_savings_witness:
  "calculatePotentialSavingsUSD (Some milk_cart) = 3 / 10
   \<and> spec_potential_savings [milk_item] = 3 / 10
   \<and> 0 \<le> item_savings milk_item"
proof -
  have h1: "items milk_cart = Some [milk_item]"
    by (simp add: milk_cart_def)
  have h2: "\<forall>item \<in> set [milk_item]. well_ranked item"
    by (simp add: well_ranked_def milk_item_def ranked_def upt_rec [of 1] upt_rec [of 2])
  have h3: "\<forall>item \<in> set [milk_item]. 0 \<le> quantity item"
    by (simp add: milk_item_def)
  have v: "spec_potential_savings [milk_item] = 3 / 10"
    by (simp add: spec_potential_savings_def spec_item_savings_def milk_item_def)
  show ?thesis
    using C1_potential_savings [OF h1 h2] h3 v by simp
qed


section \<open>Properties of the ranker\<close>

lemma map_int_upt: "map int [1 ..< n + 1] = map (\<lambda>i. int i + 1) [0 ..< n]"
proof -
  have "[1 ..< n + 1] = map (\<lambda>i. i + 1) [0 ..< n]"
    using map_add_upt [of 1 n] by simp
  then show ?thesis by (simp add: comp_def)
qed

lemma length_assign_rank: "length (assign_rank xs) = length xs"
  by (simp add: assign_rank_def)

lemma rank_assign_rank: "map rank (assign_rank xs) = map int [1 ..< length xs + 1]"
proof -
  have "map rank (assign_rank xs) = map (\<lambda>ip. int (fst ip) + 1) (enumerate 0 xs)"
    by (simp add: assign_rank_def case_prod_beta comp_def)
  also have "\<dots> = map (\<lambda>i. int i + 1) (map fst (enumerate 0 xs))"
    by (simp only: map_map o_def)
  also have "map fst (enumerate 0 xs) = [0 ..< length xs]"
    by (simp only: map_fst_enumerate) simp
  finally show ?thesis by (simp only: map_int_upt)
qed

lemma price_assign_rank: "map price_usd (assign_rank xs) = map price_usd xs"
proof -
  have "map price_usd (assign_rank xs) = map (\<lambda>ip. price_usd (snd ip)) (enumerate 0 xs)"
    by (simp add: assign_rank_def case_prod_beta comp_def)
  also have "\<dots> = map price_usd (map snd (enumerate 0 xs))"
    by (simp only: map_map o_def)
  also have "map snd (enumerate 0 xs) = xs"
    by (rule map_snd_enumerate)
  finally show ?thesis .
qed

lemma sorted_sort_by_price: "sorted (map price_usd (take n (sort_by_price cfg xs)))"
proof -
  have "sorted (map price_usd (sort_by_price cfg xs))"
    by (simp add: sort_by_price_def)
  then have "sorted (take n (map price_usd (sort_by_price cfg xs)))"
    by (rule sorted_wrt_take)
  then show ?thesis by (simp add: take_map)
qed

lemma Select_rank: "map rank (Select cfg records) = map int [1 ..< length (Select cfg records) + 1]"
  by (simp only: Select_def Let_def rank_assign_rank length_assign_rank)

lemma Select_sorted: "cfg_sortByPrice cfg \<Longrightarrow> sorted (map price_usd (Select cfg records))"
  by (simp add: Select_def Let_def price_assign_rank sorted_sort_by_price)

lemma Select_rank_nth:
  assumes "i < length (Select cfg records)"
  shows "rank (Select cfg records ! i) = int i + 1"
proof -
  have "map rank (Select cfg records) ! i = map int [1 ..< length (Select cfg records) + 1] ! i"
    using Select_rank by (rule arg_cong)
  with assms show ?thesis by (simp del: upt_Suc)
qed

text \<open>
  Claim C2. In the output of \<open>Select\<close>, the rank is the position plus 1, hence 1-based,
  unique and strictly increasing along the list; with \<open>sortByPrice\<close> on, the price at an
  earlier rank is at most the price at a later one, and the entry at position 0, which the
  views treat as the best, has rank 1, is the one \<open>find\<close> returns for rank 1, and is
  cheapest.
\<close>

theorem C2_rank_order:
  "map rank (Select cfg records) = map int [1 ..< length (Select cfg records) + 1]
   \<and> distinct (map rank (Select cfg records))
   \<and> (\<forall>i j. i < j \<and> j < length (Select cfg records) \<longrightarrow>
         rank (Select cfg records ! i) < rank (Select cfg records ! j))
   \<and> (cfg_sortByPrice cfg \<longrightarrow>
        (\<forall>i j. i < j \<and> j < length (Select cfg records) \<longrightarrow>
           price_usd (Select cfg records ! i) \<le> price_usd (Select cfg records ! j))
        \<and> (case ListView_cheapest (Select cfg records) of
             None \<Rightarrow> Select cfg records = []
           | Some best \<Rightarrow>
               rank best = 1
               \<and> find (\<lambda>r. rank r = 1) (Select cfg records) = Some best
               \<and> (\<forall>r \<in> set (Select cfg records). price_usd best \<le> price_usd r)))"
proof (intro conjI impI allI)
  show r: "map rank (Select cfg records) = map int [1 ..< length (Select cfg records) + 1]"
    by (rule Select_rank)
  have "distinct (map int [1 ..< length (Select cfg records) + 1])"
    by (simp only: distinct_map distinct_upt) (simp add: inj_on_def)
  with r show "distinct (map rank (Select cfg records))" by simp
next
  fix i j
  assume "i < j \<and> j < length (Select cfg records)"
  then show "rank (Select cfg records ! i) < rank (Select cfg records ! j)"
    by (simp add: Select_rank_nth)
next
  fix i j
  assume s: "cfg_sortByPrice cfg" and ij: "i < j \<and> j < length (Select cfg records)"
  from s have "sorted (map price_usd (Select cfg records))"
    by (rule Select_sorted)
  with ij have "map price_usd (Select cfg records) ! i \<le> map price_usd (Select cfg records) ! j"
    by (intro sorted_nth_mono) simp_all
  with ij show "price_usd (Select cfg records ! i) \<le> price_usd (Select cfg records ! j)"
    by simp
next
  assume s: "cfg_sortByPrice cfg"
  show "case ListView_cheapest (Select cfg records) of
             None \<Rightarrow> Select cfg records = []
           | Some best \<Rightarrow>
               rank best = 1
               \<and> find (\<lambda>r. rank r = 1) (Select cfg records) = Some best
               \<and> (\<forall>r \<in> set (Select cfg records). price_usd best \<le> price_usd r)"
  proof (cases "Select cfg records")
    case Nil
    then show ?thesis by (simp add: ListView_cheapest_def)
  next
    case (Cons b rest)
    from Select_rank_nth [of 0 cfg records] Cons have rb: "rank b = 1" by simp
    from s have "sorted (map price_usd (Select cfg records))"
      by (rule Select_sorted)
    with Cons have "\<forall>r \<in> set (Select cfg records). price_usd b \<le> price_usd r"
      by auto
    with rb Cons show ?thesis by (simp add: ListView_cheapest_def)
  qed
qed

theorem C2_rank_order_witness:
  "Select milk_config [milk_A, milk_B] =
     [\<lparr>source = str ''B'', name = str ''milk'', price_usd = 195 / 100, price_pkr = 543,
       url = Some (str ''http://b.example/milk''), rank = 1\<rparr>,
      \<lparr>source = str ''A'', name = str ''milk'', price_usd = 210 / 100, price_pkr = 585,
       url = Some (str ''http://a.example/milk''), rank = 2\<rparr>]
   \<and> cfg_sortByPrice milk_config
   \<and> price_usd (Select milk_config [milk_A, milk_B] ! 0) \<le> price_usd (Select milk_config [milk_A, milk_B] ! 1)
   \<and> rank (Select milk_config [milk_A, milk_B] ! 0) < rank (Select milk_config [milk_A, milk_B] ! 1)"
proof -
  have e: "Select milk_config [milk_A, milk_B] =
     [\<lparr>source = str ''B'', name = str ''milk'', price_usd = 195 / 100, price_pkr = 543,
       url = Some (str ''http://b.example/milk''), rank = 1\<rparr>,
      \<lparr>source = str ''A'', name = str ''milk'', price_usd = 210 / 100, price_pkr = 585,
       url = Some (str ''http://a.example/milk''), rank = 2\<rparr>]"
    by (simp add: Select_def milk_config_def milk_A_def milk_B_def dedup_key_def url_present_def
        str_def sort_by_price_def source_index_def assign_rank_def enumerate_eq_zip
        upt_rec [of 0] upt_rec [of 1])
  have s: "cfg_sortByPrice milk_config"
    by (simp add: milk_config_def)
  have l: "(0::nat) < 1 \<and> 1 < length (Select milk_config [milk_A, milk_B])"
    by (simp add: e)
  from C2_rank_order [of milk_config "[milk_A, milk_B]"] s l
  have "price_usd (Select milk_config [milk_A, milk_B] ! 0) \<le> price_usd (Select milk_config [milk_A, milk_B] ! 1)"
    and "rank (Select milk_config [milk_A, milk_B] ! 0) < rank (Select milk_config [milk_A, milk_B] ! 1)"
    by blast+
  with e s show ?thesis by blast
qed


section \<open>Properties of the cart views against the cart service\<close>



lemma loadOptimizedCart_requests: "snd (loadOptimizedCart l net st) = [Optimized 8002 l]"
  by (simp add: loadOptimizedCart_def Let_def)



lemma handleRefreshPrices_requests: "snd (handleRefreshPrices l net st) = [Optimized 8002 l]"
  by (simp add: handleRefreshPrices_def case_prod_beta loadOptimizedCart_requests)





end
